theory Spec2Isabelle
  imports Main "HOL-Library.Word"
begin

section \<open>The Azure Batch provider of virtual-kubelet (providers/azurebatch/batch.go)\<close>

text \<open>
  The provider maps Kubernetes pods onto tasks of one Azure Batch job. Its operations
  (CreatePod, UpdatePod, DeletePod, GetPod, GetPods, GetContainerLogs) are embedded below
  as functions over an explicit state of the remote service. A Go function either returns
  or panics, so every operation yields an \<open>outcome\<close>.
\<close>

subsection \<open>Data\<close>

text \<open>Errors are values. The remote ones are those the service contract names.\<close>

datatype error =
    TaskNotFound
  | FileNotFound
  | TaskExists
  | RemoteFailure string
  | CommandError string
  | SerializationError string
  | PayloadMissing
  | PayloadMalformed string

datatype panic = PanicError error | NilDereference

datatype 'a outcome = Returned 'a | Panicked panic

text \<open>v1.PodPhase is a string type; \<open>PhaseUnset\<close> is its zero value, the empty string.\<close>

datatype pod_phase = PhaseUnset | PodPending | PodRunning | PodSucceeded | PodFailed

type_synonym timestamp = nat

record pod_status =
  statusPhase :: pod_phase
  statusStartTime :: "timestamp option"

text \<open>Containers and volumes are opaque to the provider: it hands them to pod2docker.\<close>

type_synonym container = string
type_synonym volume = string

record pod =
  podNamespace :: string
  podName :: string
  podUID :: string
  podContainers :: "container list"
  podVolumes :: "volume list"
  podStatus :: pod_status

record pod_components =
  pcContainers :: "container list"
  pcPodName :: string
  pcVolumes :: "volume list"

datatype task_state = TaskStateActive | TaskStatePreparing | TaskStateRunning | TaskStateCompleted

datatype elevation_level = ElevationNonAdmin | ElevationAdmin

datatype auto_user_scope = ScopeTask | ScopePool

record auto_user_specification =
  ausElevationLevel :: elevation_level
  ausScope :: auto_user_scope

text \<open>batch.TaskAddParameter, with the fields CreatePod sets.\<close>

record task_add_parameter =
  tapDisplayName :: string
  tapID :: string
  tapCommandLine :: string
  tapUserIdentity :: auto_user_specification
  tapEnvironmentSettings :: "(string \<times> string) list"

text \<open>
  batch.CloudTask, with the fields the provider and its status translation read. The exit
  code is an int32 (a 32-bit word, read as signed); the translation table of the
  specification is total over it.
\<close>

record cloud_task =
  ctID :: string
  ctDisplayName :: string
  ctCommandLine :: string
  ctEnvironmentSettings :: "(string \<times> string) list"
  ctState :: task_state
  ctExitCode :: "32 word"
  ctStartTime :: "timestamp option"

text \<open>
  The result of taskClient.Get: the task, or an error together with the HTTP status code of
  the response; \<open>None\<close> is a call that failed without any HTTP response (the embedded
  *http.Response is nil).
\<close>

datatype task_get_result = GetOk cloud_task | GetFailed "nat option" error

text \<open>
  batch.CloudTaskListResultPage: the page held at the moment and what the fetches of the
  following pages are going to answer, in order.
\<close>

record task_list_page =
  pageTasks :: "cloud_task list"
  pagePending :: "(error + cloud_task list) list"

text \<open>An io.ReadCloser: the bytes it delivers and the error that ends the stream, if any.\<close>

datatype read_closer = ReadCloser string "error option"

text \<open>
  The Provider struct. The context, the job identifier of the configuration and the nil
  options are the same at every call, so they are folded into the client operations.
  The collaborators whose code is not part of the provider are fields as well:
  getTaskIDForPod (a helper of the package outside batch.go, of which only the contract is
  known), pod2docker.GetBashCommand, json.Marshal and json.Unmarshal. \<open>'s\<close> is the state
  of the remote service.
\<close>

record 's provider =
  getTaskIDForPod :: "string \<Rightarrow> string \<Rightarrow> string"
  GetBashCommand :: "pod_components \<Rightarrow> error + string"
  jsonMarshal :: "pod \<Rightarrow> error + string"
  jsonUnmarshal :: "string \<Rightarrow> error + pod"
  taskClientAdd :: "task_add_parameter \<Rightarrow> 's \<Rightarrow> error option \<times> 's"
  taskClientDelete :: "string \<Rightarrow> 's \<Rightarrow> error option \<times> 's"
  taskClientGet :: "string \<Rightarrow> 's \<Rightarrow> task_get_result"
  taskClientList :: "'s \<Rightarrow> error + task_list_page"
  fileClientGetFromTask :: "string \<Rightarrow> string \<Rightarrow> 's \<Rightarrow> error + read_closer"

subsection \<open>Constants\<close>

definition podJsonKey :: string where
  "podJsonKey = ''virtualkubelet_pod''"

definition StatusNotFound :: nat where
  "StatusNotFound = 404"

subsection \<open>Helpers of the package that batch.go calls\<close>

text \<open>
  Modelled from the spec: getPodFromTask is defined outside batch.go. Section 4.5:
  a Pod is reconstructed from a Task by deserializing the embedded payload from the
  matching environment entry; a Task missing that entry, or with an undeserializable
  payload, is a hard error.
\<close>

definition getPodFromTask :: "'s provider \<Rightarrow> cloud_task \<Rightarrow> error + pod" where
  "getPodFromTask p task =
     (case map_of (ctEnvironmentSettings task) podJsonKey of
        None \<Rightarrow> Inl PayloadMissing
      | Some payload \<Rightarrow> jsonUnmarshal p payload)"

text \<open>
  Modelled from the spec: convertTaskToPodStatus is defined outside batch.go. Section 4.4:
  Active and Preparing map to Pending, Running to Running, Completed with exit code 0 to
  Succeeded, Completed with any other exit code to Failed; the start time of the pod is
  the execution start of the task when present.
\<close>

fun convertTaskStateToPodPhase :: "task_state \<Rightarrow> 32 word \<Rightarrow> pod_phase" where
  "convertTaskStateToPodPhase TaskStateActive code = PodPending"
| "convertTaskStateToPodPhase TaskStatePreparing code = PodPending"
| "convertTaskStateToPodPhase TaskStateRunning code = PodRunning"
| "convertTaskStateToPodPhase TaskStateCompleted code =
     (if code = 0 then PodSucceeded else PodFailed)"

definition convertTaskToPodStatus :: "cloud_task \<Rightarrow> pod_status" where
  "convertTaskToPodStatus task =
     \<lparr>statusPhase = convertTaskStateToPodPhase (ctState task) (ctExitCode task),
      statusStartTime = ctStartTime task\<rparr>"

subsection \<open>The page iterator of the SDK\<close>

text \<open>
  Values gives the tasks of the page held (nil when there is none), NotDone says whether
  the page held has a task, Next replaces the page held by the next fetch: the fetch's
  error, its page, or an empty page when the listing has no continuation.
\<close>

definition Values :: "task_list_page \<Rightarrow> cloud_task list" where
  "Values res = pageTasks res"

definition NotDone :: "task_list_page \<Rightarrow> bool" where
  "NotDone res = (pageTasks res \<noteq> [])"

definition Next :: "task_list_page \<Rightarrow> error + task_list_page" where
  "Next res =
     (case pagePending res of
        [] \<Rightarrow> Inr \<lparr>pageTasks = [], pagePending = []\<rparr>
      | Inl err # _ \<Rightarrow> Inl err
      | Inr tasks # rest \<Rightarrow> Inr \<lparr>pageTasks = tasks, pagePending = rest\<rparr>)"

definition ReadAll :: "read_closer \<Rightarrow> string \<times> error option" where
  "ReadAll r = (case r of ReadCloser bytes err \<Rightarrow> (bytes, err))"

subsection \<open>listTasks (batch.go, lines 94 to 112)\<close>

text \<open>
  The loop of listTasks. The first component of the result is the pointer returned (never
  nil here), the second the error.
\<close>

function drainPages ::
  "cloud_task list \<Rightarrow> task_list_page \<Rightarrow> cloud_task list option \<times> error option" where
  "drainPages currentTasks res =
     (if NotDone res then
        (case Next res of
           Inl err \<Rightarrow> (Some [], Some err)
         | Inr res' \<Rightarrow>
             drainPages
               (if Values res' \<noteq> [] then currentTasks @ Values res'
                else if length (Values res') \<noteq> 0 then currentTasks @ Values res'
                else currentTasks)
               res')
      else (Some currentTasks, None))"
  by pat_completeness auto
termination
  by (relation "measure (\<lambda>(currentTasks, res).
        length (pagePending res) + (if NotDone res then 1 else 0))")
     (auto simp: Next_def NotDone_def split: list.splits sum.splits)

definition listTasks :: "'s provider \<Rightarrow> 's \<Rightarrow> cloud_task list option \<times> error option" where
  "listTasks p s =
     (case taskClientList p s of
        Inl err \<Rightarrow> (Some [], Some err)
      | Inr res \<Rightarrow> drainPages (Values res) res)"

subsection \<open>The operations of the provider\<close>

definition formatCommandLine :: "string \<Rightarrow> string" where
  "formatCommandLine podCommand =
     ''/bin/bash -c '' @ [CHR 0x22] @ podCommand @ [CHR 0x22]"

definition CreatePod :: "'s provider \<Rightarrow> pod \<Rightarrow> 's \<Rightarrow> error option outcome \<times> 's" where
  "CreatePod p pod s =
     (case GetBashCommand p
             \<lparr>pcContainers = podContainers pod, pcPodName = podName pod,
              pcVolumes = podVolumes pod\<rparr> of
        Inl err \<Rightarrow> (Returned (Some err), s)
      | Inr podCommand \<Rightarrow>
          (case jsonMarshal p pod of
             Inl err \<Rightarrow> (Panicked (PanicError err), s)
           | Inr bytes \<Rightarrow>
               (let task =
                  \<lparr>tapDisplayName = podUID pod,
                   tapID = getTaskIDForPod p (podNamespace pod) (podName pod),
                   tapCommandLine = formatCommandLine podCommand,
                   tapUserIdentity =
                     \<lparr>ausElevationLevel = ElevationAdmin, ausScope = ScopePool\<rparr>,
                   tapEnvironmentSettings = [(podJsonKey, bytes)]\<rparr>
                in (Returned None, snd (taskClientAdd p task s)))))"

definition DeletePod :: "'s provider \<Rightarrow> pod \<Rightarrow> 's \<Rightarrow> error option outcome \<times> 's" where
  "DeletePod p pod s =
     (let taskID = getTaskIDForPod p (podNamespace pod) (podName pod)
      in case taskClientDelete p taskID s of
           (Some err, s') \<Rightarrow> (Returned (Some err), s')
         | (None, s') \<Rightarrow> (Returned None, s'))"

definition UpdatePod :: "'s provider \<Rightarrow> pod \<Rightarrow> 's \<Rightarrow> error option outcome \<times> 's" where
  "UpdatePod p pod s =
     (case DeletePod p pod s of
        (Panicked x, s') \<Rightarrow> (Panicked x, s')
      | (Returned (Some err), s') \<Rightarrow> (Returned (Some err), s')
      | (Returned None, s') \<Rightarrow>
          (case CreatePod p pod s' of
             (Panicked x, s'') \<Rightarrow> (Panicked x, s'')
           | (Returned (Some err), s'') \<Rightarrow> (Returned (Some err), s'')
           | (Returned None, s'') \<Rightarrow> (Returned None, s'')))"

definition GetPod ::
  "'s provider \<Rightarrow> string \<Rightarrow> string \<Rightarrow> 's \<Rightarrow> (pod option \<times> error option) outcome" where
  "GetPod p namespace name s =
     (case taskClientGet p (getTaskIDForPod p namespace name) s of
        GetFailed response err \<Rightarrow>
          (case response of
             None \<Rightarrow> Panicked NilDereference
           | Some statusCode \<Rightarrow>
               if statusCode = StatusNotFound then Returned (None, None)
               else Returned (None, Some err))
      | GetOk task \<Rightarrow>
          (case getPodFromTask p task of
             Inl err \<Rightarrow> Panicked (PanicError err)
           | Inr pod \<Rightarrow>
               Returned (Some (pod\<lparr>podStatus := convertTaskToPodStatus task\<rparr>), None)))"

definition GetPodStatus ::
  "'s provider \<Rightarrow> string \<Rightarrow> string \<Rightarrow> 's \<Rightarrow> (pod_status option \<times> error option) outcome" where
  "GetPodStatus p namespace name s =
     (case GetPod p namespace name s of
        Panicked x \<Rightarrow> Panicked x
      | Returned (pod, Some err) \<Rightarrow> Returned (None, Some err)
      | Returned (None, None) \<Rightarrow> Returned (None, None)
      | Returned (Some pod, None) \<Rightarrow> Returned (Some (podStatus pod), None))"

definition GetContainerLogs ::
  "'s provider \<Rightarrow> string \<Rightarrow> string \<Rightarrow> string \<Rightarrow> int \<Rightarrow> 's \<Rightarrow> (string \<times> error option) outcome" where
  "GetContainerLogs p namespace podName' containerName tail s =
     (let logFileLocation = ''wd/'' @ containerName
      in case fileClientGetFromTask p (getTaskIDForPod p namespace podName') logFileLocation s of
           Inl err \<Rightarrow> Returned ('''', Some err)
         | Inr reader \<Rightarrow>
             (case ReadAll reader of
                (bytes, Some err) \<Rightarrow> Returned ('''', Some err)
              | (bytes, None) \<Rightarrow> Returned (bytes, None)))"

text \<open>The loop of GetPods: it panics at the first task that does not translate.\<close>

fun podsFromTasks :: "'s provider \<Rightarrow> cloud_task list \<Rightarrow> pod list outcome" where
  "podsFromTasks p [] = Returned []"
| "podsFromTasks p (t # tasks) =
     (case getPodFromTask p t of
        Inl err \<Rightarrow> Panicked (PanicError err)
      | Inr pod \<Rightarrow>
          (case podsFromTasks p tasks of
             Panicked x \<Rightarrow> Panicked x
           | Returned pods \<Rightarrow> Returned (pod # pods)))"

definition GetPods :: "'s provider \<Rightarrow> 's \<Rightarrow> (pod list \<times> error option) outcome" where
  "GetPods p s =
     (case listTasks p s of
        (tasksPtr, Some err) \<Rightarrow> Panicked (PanicError err)
      | (None, None) \<Rightarrow> Returned ([], None)
      | (Some tasks, None) \<Rightarrow>
          (case podsFromTasks p tasks of
             Panicked x \<Rightarrow> Panicked x
           | Returned pods \<Rightarrow> Returned (pods, None)))"

subsection \<open>The remote service, in memory\<close>

text \<open>
  Modelled from the spec: the Azure Batch service is an external collaborator, outside the
  repository. Section 6 gives the contract the provider depends on: AddTask answers an
  error, a conflict when the identifier already exists in the job (sections 4.3 and 7);
  GetTask answers the task or NotFound; DeleteTask answers NotFound for an identifier the
  job does not hold; ListTasks answers the tasks page by page, in listing order; ReadFile
  answers the bytes of a file of the task or NotFound. The store also records the write
  requests it receives.
\<close>

datatype request = AddRequest task_add_parameter | DeleteRequest string

record job_store =
  storeTasks :: "cloud_task list"
  storeFiles :: "((string \<times> string) \<times> string) list"
  storeMaxResults :: nat
  storeRequests :: "request list"

definition newTask :: "task_add_parameter \<Rightarrow> cloud_task" where
  "newTask param =
     \<lparr>ctID = tapID param, ctDisplayName = tapDisplayName param,
      ctCommandLine = tapCommandLine param,
      ctEnvironmentSettings = tapEnvironmentSettings param,
      ctState = TaskStateActive, ctExitCode = 0, ctStartTime = None\<rparr>"

definition memAdd :: "task_add_parameter \<Rightarrow> job_store \<Rightarrow> error option \<times> job_store" where
  "memAdd param s =
     (let s' = s\<lparr>storeRequests := storeRequests s @ [AddRequest param]\<rparr>
      in if tapID param \<in> set (map ctID (storeTasks s)) then (Some TaskExists, s')
         else (None, s'\<lparr>storeTasks := storeTasks s @ [newTask param]\<rparr>))"

definition memDelete :: "string \<Rightarrow> job_store \<Rightarrow> error option \<times> job_store" where
  "memDelete taskID s =
     (let s' = s\<lparr>storeRequests := storeRequests s @ [DeleteRequest taskID]\<rparr>
      in if taskID \<in> set (map ctID (storeTasks s))
         then (None, s'\<lparr>storeTasks := filter (\<lambda>t. ctID t \<noteq> taskID) (storeTasks s)\<rparr>)
         else (Some TaskNotFound, s'))"

definition memGet :: "string \<Rightarrow> job_store \<Rightarrow> task_get_result" where
  "memGet taskID s =
     (case find (\<lambda>t. ctID t = taskID) (storeTasks s) of
        None \<Rightarrow> GetFailed (Some StatusNotFound) TaskNotFound
      | Some t \<Rightarrow> GetOk t)"

text \<open>The listing cut into pages of at most \<open>n\<close> tasks; \<open>n = 0\<close> sets no limit.\<close>

function pagesOf :: "nat \<Rightarrow> 'a list \<Rightarrow> 'a list list" where
  "pagesOf n xs =
     (if xs = [] then []
      else if n = 0 then [xs]
      else take n xs # pagesOf n (drop n xs))"
  by pat_completeness auto
termination
  by (relation "measure (\<lambda>(n, xs). length xs)") auto

definition memList :: "job_store \<Rightarrow> error + task_list_page" where
  "memList s =
     (case pagesOf (storeMaxResults s) (storeTasks s) of
        [] \<Rightarrow> Inr \<lparr>pageTasks = [], pagePending = []\<rparr>
      | page # pages \<Rightarrow> Inr \<lparr>pageTasks = page, pagePending = map Inr pages\<rparr>)"

definition memGetFromTask :: "string \<Rightarrow> string \<Rightarrow> job_store \<Rightarrow> error + read_closer" where
  "memGetFromTask taskID filePath s =
     (if taskID \<in> set (map ctID (storeTasks s))
      then (case map_of (storeFiles s) (taskID, filePath) of
              None \<Rightarrow> Inl FileNotFound
            | Some bytes \<Rightarrow> Inr (ReadCloser bytes None))
      else Inl TaskNotFound)"

definition memProvider ::
  "(string \<Rightarrow> string \<Rightarrow> string) \<Rightarrow> (pod_components \<Rightarrow> error + string) \<Rightarrow>
   (pod \<Rightarrow> error + string) \<Rightarrow> (string \<Rightarrow> error + pod) \<Rightarrow> job_store provider" where
  "memProvider taskID command marshal unmarshal =
     \<lparr>getTaskIDForPod = taskID, GetBashCommand = command,
      jsonMarshal = marshal, jsonUnmarshal = unmarshal,
      taskClientAdd = memAdd, taskClientDelete = memDelete, taskClientGet = memGet,
      taskClientList = memList, fileClientGetFromTask = memGetFromTask\<rparr>"

subsection \<open>A concrete provider and job, for evaluation\<close>

definition fixtureTaskID :: "string \<Rightarrow> string \<Rightarrow> string" where
  "fixtureTaskID namespace name = namespace @ ''-'' @ name"

definition fixtureCommand :: "pod_components \<Rightarrow> error + string" where
  "fixtureCommand pc =
     (if pcContainers pc = [] then Inl (CommandError ''no containers'')
      else Inr (''docker run '' @ pcPodName pc))"

definition fixturePod :: "string \<Rightarrow> pod" where
  "fixturePod name =
     \<lparr>podNamespace = ''default'', podName = name, podUID = ''uid-'' @ name,
      podContainers = [''main''], podVolumes = [],
      podStatus = \<lparr>statusPhase = PhaseUnset, statusStartTime = None\<rparr>\<rparr>"

definition fixtureMarshal :: "pod \<Rightarrow> error + string" where
  "fixtureMarshal pod = Inr (''{'' @ podName pod @ ''}'')"

definition fixtureUnmarshal :: "string \<Rightarrow> error + pod" where
  "fixtureUnmarshal payload =
     (if payload = ''{web}'' then Inr (fixturePod ''web'')
      else if payload = ''{db}'' then Inr (fixturePod ''db'')
      else if payload = ''{job}'' then Inr (fixturePod ''job'')
      else Inl (PayloadMalformed payload))"

definition fixtureProvider :: "job_store provider" where
  "fixtureProvider = memProvider fixtureTaskID fixtureCommand fixtureMarshal fixtureUnmarshal"

definition fixtureTask :: "string \<Rightarrow> task_state \<Rightarrow> 32 word \<Rightarrow> cloud_task" where
  "fixtureTask name st code =
     \<lparr>ctID = fixtureTaskID ''default'' name, ctDisplayName = ''uid-'' @ name,
      ctCommandLine = formatCommandLine (''docker run '' @ name),
      ctEnvironmentSettings = [(podJsonKey, ''{'' @ name @ ''}'')],
      ctState = st, ctExitCode = code, ctStartTime = Some 7\<rparr>"

definition fixtureStore :: "cloud_task list \<Rightarrow> nat \<Rightarrow> job_store" where
  "fixtureStore tasks n =
     \<lparr>storeTasks = tasks,
      storeFiles = [((fixtureTaskID ''default'' ''web'', ''wd/main''), ''line 1'')],
      storeMaxResults = n, storeRequests = []\<rparr>"


definition storeWithWeb :: job_store where
  "storeWithWeb = fixtureStore [fixtureTask ''web'' TaskStateRunning 0] 0"

definition foreignTask :: cloud_task where
  "foreignTask = (fixtureTask ''web'' TaskStateRunning 0)\<lparr>ctEnvironmentSettings := []\<rparr>"

definition storeWithForeignTask :: job_store where
  "storeWithForeignTask = fixtureStore [foreignTask] 0"

definition storeWithThree :: "nat \<Rightarrow> job_store" where
  "storeWithThree n =
     fixtureStore [fixtureTask ''web'' TaskStateRunning 0,
                   fixtureTask ''db'' TaskStateCompleted 255,
                   fixtureTask ''job'' TaskStateCompleted 0] n"

text \<open>A provider whose listing fails at the fetch of the second page.\<close>

definition failingList :: "job_store \<Rightarrow> error + task_list_page" where
  "failingList s =
     Inr \<lparr>pageTasks = take 1 (storeTasks s),
          pagePending = [Inl (RemoteFailure ''timeout'')]\<rparr>"

definition failingProvider :: "job_store provider" where
  "failingProvider = fixtureProvider\<lparr>taskClientList := failingList\<rparr>"

text \<open>
  A provider whose listing answers an empty page between two pages that hold tasks.
\<close>

definition gappedList :: "job_store \<Rightarrow> error + task_list_page" where
  "gappedList s =
     Inr \<lparr>pageTasks = take 1 (storeTasks s),
          pagePending = [Inr [], Inr (drop 1 (storeTasks s))]\<rparr>"

definition gappedProvider :: "job_store provider" where
  "gappedProvider = fixtureProvider\<lparr>taskClientList := gappedList\<rparr>"

section \<open>Properties\<close>

subsection \<open>Pagination and the loops\<close>

declare pagesOf.simps [simp del]
declare drainPages.simps [simp del]

lemma drainPages_empty_page:
  "drainPages cur \<lparr>pageTasks = [], pagePending = pending\<rparr> = (Some cur, None)"
  by (subst drainPages.simps) (simp add: NotDone_def)


lemma pagesOf_concat: "concat (pagesOf n xs) = xs"
proof (induction n xs rule: pagesOf.induct)
  case (1 n xs)
  then show ?case by (subst pagesOf.simps) simp
qed

lemma pagesOf_nonempty: "q \<in> set (pagesOf n xs) \<Longrightarrow> q \<noteq> []"
proof (induction n xs rule: pagesOf.induct)
  case (1 n xs)
  from "1.prems" have "q \<in> set (if xs = [] then [] else if n = 0 then [xs] else take n xs # pagesOf n (drop n xs))"
    by (subst (asm) pagesOf.simps)
  then show ?case using "1.IH" by (auto split: if_splits)
qed

lemma drainPages_all:
  "pg \<noteq> [] \<Longrightarrow> \<forall>q\<in>set ps. q \<noteq> [] \<Longrightarrow>
   drainPages cur \<lparr>pageTasks = pg, pagePending = map Inr ps\<rparr> = (Some (cur @ concat ps), None)"
proof (induction ps arbitrary: cur pg)
  case Nil
  then show ?case
    by (subst drainPages.simps) (simp add: NotDone_def Next_def Values_def drainPages_empty_page)
next
  case (Cons q qs)
  then show ?case
    by (subst drainPages.simps) (simp add: NotDone_def Next_def Values_def)
qed

lemma drainPages_fails:
  "pg \<noteq> [] \<Longrightarrow> \<forall>q\<in>set ps. q \<noteq> [] \<Longrightarrow>
   drainPages cur \<lparr>pageTasks = pg, pagePending = map Inr ps @ Inl err # rest\<rparr> = (Some [], Some err)"
proof (induction ps arbitrary: cur pg)
  case Nil
  then show ?case
    by (subst drainPages.simps) (simp add: NotDone_def Next_def Values_def drainPages_empty_page)
next
  case (Cons q qs)
  then show ?case
    by (subst drainPages.simps) (simp add: NotDone_def Next_def Values_def)
qed


lemma listTasks_all:
  assumes "taskClientList p s = Inr \<lparr>pageTasks = pg, pagePending = map Inr ps\<rparr>"
    and "\<forall>q\<in>set (pg # ps). q \<noteq> []"
  shows "listTasks p s = (Some (concat (pg # ps)), None)"
  using assms by (simp add: listTasks_def Values_def drainPages_all)

lemma listTasks_fails:
  assumes "taskClientList p s = Inr \<lparr>pageTasks = pg, pagePending = map Inr ps @ Inl err # rest\<rparr>"
    and "\<forall>q\<in>set (pg # ps). q \<noteq> []"
  shows "listTasks p s = (Some [], Some err)"
  using assms by (simp add: listTasks_def Values_def drainPages_fails)

lemma drainPages_stops:
  "pg \<noteq> [] \<Longrightarrow> \<forall>q\<in>set ps. q \<noteq> [] \<Longrightarrow>
   drainPages cur \<lparr>pageTasks = pg, pagePending = map Inr ps @ Inr [] # rest\<rparr>
     = (Some (cur @ concat ps), None)"
proof (induction ps arbitrary: cur pg)
  case Nil
  then show ?case
    by (subst drainPages.simps) (simp add: NotDone_def Next_def Values_def drainPages_empty_page)
next
  case (Cons q qs)
  then show ?case
    by (subst drainPages.simps) (simp add: NotDone_def Next_def Values_def)
qed

lemma listTasks_stops:
  assumes "taskClientList p s = Inr \<lparr>pageTasks = pg, pagePending = map Inr ps @ Inr [] # rest\<rparr>"
    and "\<forall>q\<in>set (pg # ps). q \<noteq> []"
  shows "listTasks p s = (Some (concat (pg # ps)), None)"
  using assms by (simp add: listTasks_def Values_def drainPages_stops)

lemma listTasks_empty_first:
  assumes "taskClientList p s = Inr \<lparr>pageTasks = [], pagePending = pending\<rparr>"
  shows "listTasks p s = (Some [], None)"
  using assms by (simp add: listTasks_def Values_def drainPages_empty_page)

lemma listTasks_mem:
  "listTasks (memProvider tid cmd mar unmar) ms = (Some (storeTasks ms), None)"
proof (cases "pagesOf (storeMaxResults ms) (storeTasks ms)")
  case Nil
  moreover from Nil have "storeTasks ms = []"
    using pagesOf_concat [of "storeMaxResults ms" "storeTasks ms"] by simp
  ultimately show ?thesis
    by (simp add: listTasks_def memProvider_def memList_def Values_def drainPages_empty_page)
next
  case (Cons page pages)
  then have ne: "\<forall>q\<in>set (page # pages). q \<noteq> []"
    using pagesOf_nonempty [of _ "storeMaxResults ms" "storeTasks ms"] by auto
  have "concat (page # pages) = storeTasks ms"
    using pagesOf_concat [of "storeMaxResults ms" "storeTasks ms"] Cons by simp
  moreover have "taskClientList (memProvider tid cmd mar unmar) ms
      = Inr \<lparr>pageTasks = page, pagePending = map Inr pages\<rparr>"
    using Cons by (simp add: memProvider_def memList_def)
  ultimately show ?thesis
    using listTasks_all [OF _ ne] by metis
qed

lemma podsFromTasks_all:
  "map (getPodFromTask p) tasks = map Inr pods \<Longrightarrow> podsFromTasks p tasks = Returned pods"
proof (induction tasks arbitrary: pods)
  case Nil
  then show ?case by simp
next
  case (Cons t tasks)
  then obtain pod rest where "pods = pod # rest" by (cases pods) auto
  with Cons show ?case by simp
qed

lemma podsFromTasks_panics:
  "t \<in> set tasks \<Longrightarrow> getPodFromTask p t = Inl err \<Longrightarrow>
   \<exists>t'\<in>set tasks. \<exists>err'. getPodFromTask p t' = Inl err' \<and> podsFromTasks p tasks = Panicked (PanicError err')"
proof (induction tasks)
  case Nil
  then show ?case by simp
next
  case (Cons a tasks)
  show ?case
  proof (cases "getPodFromTask p a")
    case (Inl e)
    then show ?thesis by auto
  next
    case (Inr pod)
    with Cons.prems have "t \<in> set tasks" by auto
    from Cons.IH [OF this Cons.prems(2)] obtain t' err' where
      "t' \<in> set tasks" "getPodFromTask p t' = Inl err'" "podsFromTasks p tasks = Panicked (PanicError err')"
      by blast
    with Inr show ?thesis by auto
  qed
qed

lemma podsFromTasks_status:
  "podsFromTasks p tasks = Returned pods \<Longrightarrow> map (getPodFromTask p) tasks = map Inr pods"
proof (induction tasks arbitrary: pods)
  case Nil
  then show ?case by simp
next
  case (Cons t tasks)
  then show ?case by (auto split: sum.splits outcome.splits)
qed

subsection \<open>The concrete provider, evaluated\<close>

lemma fixtureProvider_fields:
  "getTaskIDForPod fixtureProvider = fixtureTaskID"
  "GetBashCommand fixtureProvider = fixtureCommand"
  "jsonMarshal fixtureProvider = fixtureMarshal"
  "jsonUnmarshal fixtureProvider = fixtureUnmarshal"
  "taskClientAdd fixtureProvider = memAdd"
  "taskClientDelete fixtureProvider = memDelete"
  "taskClientGet fixtureProvider = memGet"
  "taskClientList fixtureProvider = memList"
  "fileClientGetFromTask fixtureProvider = memGetFromTask"
  by (simp_all add: fixtureProvider_def memProvider_def)

lemma fixture_getPodFromTask:
  "getPodFromTask fixtureProvider (fixtureTask ''web'' st code) = Inr (fixturePod ''web'')"
  "getPodFromTask fixtureProvider (fixtureTask ''db'' st code) = Inr (fixturePod ''db'')"
  "getPodFromTask fixtureProvider (fixtureTask ''job'' st code) = Inr (fixturePod ''job'')"
  by (simp_all add: getPodFromTask_def fixtureTask_def fixtureProvider_fields podJsonKey_def
      fixtureUnmarshal_def)

lemma fixture_memGet_single:
  "memGet (fixtureTaskID ''default'' name) (fixtureStore [fixtureTask name st code] n)
     = GetOk (fixtureTask name st code)"
  by (simp add: memGet_def fixtureStore_def fixtureTask_def)

subsection \<open>Status translation\<close>

text \<open>
  Claim C1. The phase of the status translated from a task is Pending for an Active or a
  Preparing task, Running for a Running one, Succeeded for a Completed one with exit code
  0 and Failed for a Completed one with any other exit code, 1, -1 and 255 included; the
  four states are all the states there are; and the pod GetPod returns for a fetched task
  carries exactly that status.
\<close>

theorem convertTaskToPodStatus_phase_table:
  "(ctState task = TaskStateActive \<longrightarrow> statusPhase (convertTaskToPodStatus task) = PodPending) \<and>
   (ctState task = TaskStatePreparing \<longrightarrow> statusPhase (convertTaskToPodStatus task) = PodPending) \<and>
   (ctState task = TaskStateRunning \<longrightarrow> statusPhase (convertTaskToPodStatus task) = PodRunning) \<and>
   (ctState task = TaskStateCompleted \<and> ctExitCode task = 0 \<longrightarrow>
      statusPhase (convertTaskToPodStatus task) = PodSucceeded) \<and>
   (ctState task = TaskStateCompleted \<and> ctExitCode task \<noteq> 0 \<longrightarrow>
      statusPhase (convertTaskToPodStatus task) = PodFailed) \<and>
   (ctState task = TaskStateCompleted \<and> ctExitCode task \<in> {1, - 1, 255} \<longrightarrow>
      statusPhase (convertTaskToPodStatus task) = PodFailed) \<and>
   ctState task \<in> {TaskStateActive, TaskStatePreparing, TaskStateRunning, TaskStateCompleted} \<and>
   (taskClientGet p (getTaskIDForPod p namespace name) s = GetOk task \<and>
    getPodFromTask p task = Inr pod \<longrightarrow>
      (\<exists>pod'. GetPod p namespace name s = Returned (Some pod', None) \<and>
         podStatus pod' = convertTaskToPodStatus task))"
proof -
  have "ctState task \<in> {TaskStateActive, TaskStatePreparing, TaskStateRunning, TaskStateCompleted}"
    by (cases "ctState task") simp_all
  moreover have "taskClientGet p (getTaskIDForPod p namespace name) s = GetOk task \<and>
    getPodFromTask p task = Inr pod \<longrightarrow>
      (\<exists>pod'. GetPod p namespace name s = Returned (Some pod', None) \<and>
         podStatus pod' = convertTaskToPodStatus task)"
    by (simp add: GetPod_def)
  ultimately show ?thesis
    by (auto simp: convertTaskToPodStatus_def)
qed

theorem convertTaskToPodStatus_phase_table_witness:
  "statusPhase (convertTaskToPodStatus (fixtureTask ''web'' TaskStateActive 0)) = PodPending \<and>
   statusPhase (convertTaskToPodStatus (fixtureTask ''web'' TaskStatePreparing 0)) = PodPending \<and>
   statusPhase (convertTaskToPodStatus (fixtureTask ''web'' TaskStateRunning 0)) = PodRunning \<and>
   statusPhase (convertTaskToPodStatus (fixtureTask ''web'' TaskStateCompleted 0)) = PodSucceeded \<and>
   statusPhase (convertTaskToPodStatus (fixtureTask ''web'' TaskStateCompleted 1)) = PodFailed \<and>
   statusPhase (convertTaskToPodStatus (fixtureTask ''web'' TaskStateCompleted (- 1))) = PodFailed \<and>
   statusPhase (convertTaskToPodStatus (fixtureTask ''web'' TaskStateCompleted 255)) = PodFailed \<and>
   (\<exists>pod'. GetPod fixtureProvider ''default'' ''web''
             (fixtureStore [fixtureTask ''web'' TaskStateCompleted 255] 0) = Returned (Some pod', None) \<and>
           statusPhase (podStatus pod') = PodFailed)"
proof -
  note table = convertTaskToPodStatus_phase_table [where p = fixtureProvider and namespace = "''default''"
      and name = "''web''" and s = "fixtureStore [fixtureTask ''web'' TaskStateCompleted 255] 0"
      and pod = "fixturePod ''web''"]
  have active: "statusPhase (convertTaskToPodStatus (fixtureTask ''web'' TaskStateActive 0)) = PodPending"
    using table [of "fixtureTask ''web'' TaskStateActive 0"]
    by (simp add: fixtureTask_def)
  have preparing: "statusPhase (convertTaskToPodStatus (fixtureTask ''web'' TaskStatePreparing 0)) = PodPending"
    using table [of "fixtureTask ''web'' TaskStatePreparing 0"]
    by (simp add: fixtureTask_def)
  have running: "statusPhase (convertTaskToPodStatus (fixtureTask ''web'' TaskStateRunning 0)) = PodRunning"
    using table [of "fixtureTask ''web'' TaskStateRunning 0"]
    by (simp add: fixtureTask_def)
  have zero: "statusPhase (convertTaskToPodStatus (fixtureTask ''web'' TaskStateCompleted 0)) = PodSucceeded"
    using table [of "fixtureTask ''web'' TaskStateCompleted 0"]
    by (simp add: fixtureTask_def)
  have one: "statusPhase (convertTaskToPodStatus (fixtureTask ''web'' TaskStateCompleted 1)) = PodFailed"
    using table [of "fixtureTask ''web'' TaskStateCompleted 1"]
    by (simp add: fixtureTask_def)
  have minus: "statusPhase (convertTaskToPodStatus (fixtureTask ''web'' TaskStateCompleted (- 1))) = PodFailed"
    using table [of "fixtureTask ''web'' TaskStateCompleted (- 1)"]
    by (simp add: fixtureTask_def)
  have top: "statusPhase (convertTaskToPodStatus (fixtureTask ''web'' TaskStateCompleted 255)) = PodFailed"
    using table [of "fixtureTask ''web'' TaskStateCompleted 255"]
    by (simp add: fixtureTask_def)
  have "\<exists>pod'. GetPod fixtureProvider ''default'' ''web''
             (fixtureStore [fixtureTask ''web'' TaskStateCompleted 255] 0) = Returned (Some pod', None) \<and>
           podStatus pod' = convertTaskToPodStatus (fixtureTask ''web'' TaskStateCompleted 255)"
    using table [of "fixtureTask ''web'' TaskStateCompleted 255"]
    by (simp only: fixtureProvider_fields fixture_memGet_single fixture_getPodFromTask simp_thms)
  with top have "\<exists>pod'. GetPod fixtureProvider ''default'' ''web''
             (fixtureStore [fixtureTask ''web'' TaskStateCompleted 255] 0) = Returned (Some pod', None) \<and>
           statusPhase (podStatus pod') = PodFailed"
    by auto
  with active preparing running zero one minus top show ?thesis
    by simp
qed

lemma storeWithWeb_get:
  "memGet (fixtureTaskID ''default'' ''web'') storeWithWeb = GetOk (fixtureTask ''web'' TaskStateRunning 0)"
  by (simp add: storeWithWeb_def fixture_memGet_single)

lemma storeWithForeignTask_get:
  "memGet (fixtureTaskID ''default'' ''web'') storeWithForeignTask = GetOk foreignTask"
  by (simp add: storeWithForeignTask_def foreignTask_def memGet_def fixtureStore_def fixtureTask_def)

lemma foreignTask_translation:
  "getPodFromTask p foreignTask = Inl PayloadMissing"
  by (simp add: getPodFromTask_def foreignTask_def)

subsection \<open>CreatePod\<close>

text \<open>
  Claim C2. CreatePod is claimed to return the error of the remote Add call. It does not:
  the result of taskClient.Add is dropped and CreatePod returns nil. Here the job already
  holds the task of the pod, the service answers the Add request with a conflict, and
  CreatePod returns no error; the job is left as it was.
\<close>

theorem CreatePod_discards_add_error:
  "fst (CreatePod fixtureProvider (fixturePod ''web'') storeWithWeb) = Returned None \<and>
   storeTasks (snd (CreatePod fixtureProvider (fixturePod ''web'') storeWithWeb))
     = storeTasks storeWithWeb \<and>
   (\<exists>param. storeRequests (snd (CreatePod fixtureProvider (fixturePod ''web'') storeWithWeb))
              = [AddRequest param] \<and>
            tapID param = fixtureTaskID ''default'' ''web'' \<and>
            fst (taskClientAdd fixtureProvider param storeWithWeb) = Some TaskExists)"
  by (simp add: CreatePod_def fixtureProvider_fields fixtureCommand_def fixtureMarshal_def
      fixturePod_def memAdd_def storeWithWeb_def fixtureStore_def fixtureTask_def Let_def)

subsection \<open>Translation failures\<close>

text \<open>
  Claim C3, as stated: GetPod and GetPods return a translation error for a task without
  the embedded pod. They do not return: for a job holding such a task both calls panic.
\<close>

theorem GetPod_GetPods_translation_failure_counterexample:
  "GetPod fixtureProvider ''default'' ''web'' storeWithForeignTask
     = Panicked (PanicError PayloadMissing) \<and>
   GetPod fixtureProvider ''default'' ''web'' storeWithForeignTask
     \<noteq> Returned (None, Some PayloadMissing) \<and>
   GetPods fixtureProvider storeWithForeignTask = Panicked (PanicError PayloadMissing) \<and>
   GetPods fixtureProvider storeWithForeignTask \<noteq> Returned ([], Some PayloadMissing)"
proof -
  have "GetPod fixtureProvider ''default'' ''web'' storeWithForeignTask
     = Panicked (PanicError PayloadMissing)"
    by (simp add: GetPod_def fixtureProvider_fields storeWithForeignTask_get foreignTask_translation)
  moreover have "GetPods fixtureProvider storeWithForeignTask = Panicked (PanicError PayloadMissing)"
    by (simp add: GetPods_def fixtureProvider_def listTasks_mem storeWithForeignTask_def
        fixtureStore_def foreignTask_translation)
  ultimately show ?thesis by simp
qed

text \<open>
  Claim C3, amended. A task without the entry, or with a payload that does not
  deserialize, does not translate; GetPod panics with the translation error of the task
  it fetched, and GetPods panics with the translation error of a task of the listing.
  Neither returns a pod, nor anything else.
\<close>

theorem translation_failure_panics:
  "(map_of (ctEnvironmentSettings task) podJsonKey = None \<longrightarrow>
      getPodFromTask p task = Inl PayloadMissing) \<and>
   (map_of (ctEnvironmentSettings task) podJsonKey = Some payload \<and>
    jsonUnmarshal p payload = Inl err \<longrightarrow> getPodFromTask p task = Inl err) \<and>
   (taskClientGet p (getTaskIDForPod p namespace name) s = GetOk task \<and>
    getPodFromTask p task = Inl err \<longrightarrow>
      GetPod p namespace name s = Panicked (PanicError err)) \<and>
   (listTasks p s = (Some tasks, None) \<and> task \<in> set tasks \<and>
    getPodFromTask p task = Inl err \<longrightarrow>
      (\<exists>t\<in>set tasks. \<exists>err'. getPodFromTask p t = Inl err' \<and>
         GetPods p s = Panicked (PanicError err')))"
proof -
  have "listTasks p s = (Some tasks, None) \<and> task \<in> set tasks \<and>
    getPodFromTask p task = Inl err \<longrightarrow>
      (\<exists>t\<in>set tasks. \<exists>err'. getPodFromTask p t = Inl err' \<and>
         GetPods p s = Panicked (PanicError err'))"
  proof (intro impI, elim conjE)
    assume l: "listTasks p s = (Some tasks, None)" and "task \<in> set tasks"
      and "getPodFromTask p task = Inl err"
    then obtain t err' where "t \<in> set tasks" "getPodFromTask p t = Inl err'"
      "podsFromTasks p tasks = Panicked (PanicError err')"
      using podsFromTasks_panics by blast
    with l show "\<exists>t\<in>set tasks. \<exists>err'. getPodFromTask p t = Inl err' \<and>
         GetPods p s = Panicked (PanicError err')"
      by (auto simp: GetPods_def)
  qed
  then show ?thesis
    by (simp add: getPodFromTask_def GetPod_def)
qed

theorem translation_failure_panics_witness:
  "GetPod fixtureProvider ''default'' ''web'' storeWithForeignTask
     = Panicked (PanicError PayloadMissing) \<and>
   getPodFromTask fixtureProvider
     ((fixtureTask ''web'' TaskStateRunning 0)\<lparr>ctEnvironmentSettings := [(podJsonKey, ''{'')]\<rparr>)
     = Inl (PayloadMalformed ''{'') \<and>
   (\<exists>err'. GetPods fixtureProvider storeWithForeignTask = Panicked (PanicError err'))"
proof -
  note rule = translation_failure_panics [where p = fixtureProvider and namespace = "''default''"
      and name = "''web''" and s = storeWithForeignTask and tasks = "[foreignTask]"]
  have l: "listTasks fixtureProvider storeWithForeignTask = (Some [foreignTask], None)"
    by (simp add: fixtureProvider_def listTasks_mem storeWithForeignTask_def fixtureStore_def)
  have "GetPod fixtureProvider ''default'' ''web'' storeWithForeignTask
     = Panicked (PanicError PayloadMissing)"
    using rule [of foreignTask "''''" PayloadMissing]
    by (simp add: fixtureProvider_fields storeWithForeignTask_get foreignTask_translation)
  moreover have "getPodFromTask fixtureProvider
     ((fixtureTask ''web'' TaskStateRunning 0)\<lparr>ctEnvironmentSettings := [(podJsonKey, ''{'')]\<rparr>)
     = Inl (PayloadMalformed ''{'')"
    using rule [of "(fixtureTask ''web'' TaskStateRunning 0)\<lparr>ctEnvironmentSettings := [(podJsonKey, ''{'')]\<rparr>"
        "''{''" "PayloadMalformed ''{''"]
    by (simp add: fixtureProvider_fields fixtureUnmarshal_def)
  moreover have "\<exists>err'. GetPods fixtureProvider storeWithForeignTask = Panicked (PanicError err')"
    using rule [of foreignTask "''''" PayloadMissing] l
    by (simp add: foreignTask_translation)
  ultimately show ?thesis by simp
qed

subsection \<open>The in-memory service\<close>

lemma memGet_absent:
  "taskID \<notin> set (map ctID (storeTasks ms)) \<Longrightarrow>
   memGet taskID ms = GetFailed (Some StatusNotFound) TaskNotFound"
proof -
  assume "taskID \<notin> set (map ctID (storeTasks ms))"
  then have "find (\<lambda>t. ctID t = taskID) (storeTasks ms) = None"
    by (auto simp: find_None_iff)
  then show ?thesis by (simp add: memGet_def)
qed

lemma memProvider_fields:
  "getTaskIDForPod (memProvider tid cmd mar unmar) = tid"
  "GetBashCommand (memProvider tid cmd mar unmar) = cmd"
  "jsonMarshal (memProvider tid cmd mar unmar) = mar"
  "jsonUnmarshal (memProvider tid cmd mar unmar) = unmar"
  "taskClientAdd (memProvider tid cmd mar unmar) = memAdd"
  "taskClientDelete (memProvider tid cmd mar unmar) = memDelete"
  "taskClientGet (memProvider tid cmd mar unmar) = memGet"
  "taskClientList (memProvider tid cmd mar unmar) = memList"
  "fileClientGetFromTask (memProvider tid cmd mar unmar) = memGetFromTask"
  by (simp_all add: memProvider_def)

subsection \<open>GetPod\<close>

text \<open>
  Claim C4. When the service answers the lookup of the derived identifier with status 404,
  GetPod returns no pod and no error; when it answers with a task that translates, GetPod
  returns the pod of the embedded payload with its status replaced by the status
  translated from that task. The in-memory service answers 404 exactly for an identifier
  the job does not hold, so a pod without a task is absent.
\<close>

theorem GetPod_absent_or_reconstructed:
  "(taskClientGet p (getTaskIDForPod p namespace name) s = GetFailed (Some StatusNotFound) err \<longrightarrow>
      GetPod p namespace name s = Returned (None, None)) \<and>
   (taskClientGet p (getTaskIDForPod p namespace name) s = GetOk task \<and>
    getPodFromTask p task = Inr pod \<longrightarrow>
      GetPod p namespace name s
        = Returned (Some (pod\<lparr>podStatus := convertTaskToPodStatus task\<rparr>), None)) \<and>
   (tid namespace name \<notin> set (map ctID (storeTasks ms)) \<longrightarrow>
      GetPod (memProvider tid cmd mar unmar) namespace name ms = Returned (None, None))"
  by (simp add: GetPod_def memProvider_fields memGet_absent)

theorem GetPod_absent_or_reconstructed_witness:
  "GetPod fixtureProvider ''default'' ''db'' storeWithWeb = Returned (None, None) \<and>
   GetPod fixtureProvider ''default'' ''web'' storeWithWeb
     = Returned (Some ((fixturePod ''web'')
         \<lparr>podStatus := \<lparr>statusPhase = PodRunning, statusStartTime = Some 7\<rparr>\<rparr>), None)"
proof -
  note rule = GetPod_absent_or_reconstructed [where p = fixtureProvider
      and namespace = "''default''" and s = storeWithWeb and ms = storeWithWeb
      and tid = fixtureTaskID and cmd = fixtureCommand and mar = fixtureMarshal
      and unmar = fixtureUnmarshal and err = TaskNotFound]
  have absent: "fixtureTaskID ''default'' ''db'' \<notin> set (map ctID (storeTasks storeWithWeb))"
    by (simp add: storeWithWeb_def fixtureStore_def fixtureTask_def fixtureTaskID_def)
  have "GetPod fixtureProvider ''default'' ''db'' storeWithWeb = Returned (None, None)"
    using rule [of "''db''" "fixtureTask ''web'' TaskStateRunning 0" "fixturePod ''web''"] absent
    by (simp add: fixtureProvider_def)
  moreover have "GetPod fixtureProvider ''default'' ''web'' storeWithWeb
     = Returned (Some ((fixturePod ''web'')
         \<lparr>podStatus := convertTaskToPodStatus (fixtureTask ''web'' TaskStateRunning 0)\<rparr>), None)"
    using rule [of "''web''" "fixtureTask ''web'' TaskStateRunning 0" "fixturePod ''web''"]
    by (simp add: fixtureProvider_fields storeWithWeb_get fixture_getPodFromTask)
  ultimately show ?thesis
    by (simp add: convertTaskToPodStatus_def fixtureTask_def)
qed

subsection \<open>DeletePod\<close>

text \<open>
  Claim C5. DeletePod sends one Delete request for the derived identifier and returns what
  the service answers: its error unchanged, or nil. Against the in-memory service, the
  pod whose identifier the job does not hold gets the not-found error of the service and
  the job keeps its tasks; the pod whose identifier it holds is deleted.
\<close>

theorem DeletePod_returns_remote_error:
  "(taskClientDelete p (getTaskIDForPod p (podNamespace pod) (podName pod)) s = (r, s') \<longrightarrow>
      DeletePod p pod s = (Returned r, s')) \<and>
   (tid (podNamespace pod) (podName pod) \<notin> set (map ctID (storeTasks ms)) \<longrightarrow>
      fst (DeletePod (memProvider tid cmd mar unmar) pod ms) = Returned (Some TaskNotFound) \<and>
      storeTasks (snd (DeletePod (memProvider tid cmd mar unmar) pod ms)) = storeTasks ms) \<and>
   (tid (podNamespace pod) (podName pod) \<in> set (map ctID (storeTasks ms)) \<longrightarrow>
      fst (DeletePod (memProvider tid cmd mar unmar) pod ms) = Returned None \<and>
      tid (podNamespace pod) (podName pod)
        \<notin> set (map ctID (storeTasks (snd (DeletePod (memProvider tid cmd mar unmar) pod ms)))))"
proof -
  have "taskClientDelete p (getTaskIDForPod p (podNamespace pod) (podName pod)) s = (r, s') \<longrightarrow>
      DeletePod p pod s = (Returned r, s')"
    by (cases r) (simp_all add: DeletePod_def)
  then show ?thesis
    by (auto simp: DeletePod_def memProvider_fields memDelete_def Let_def)
qed

theorem DeletePod_returns_remote_error_witness:
  "DeletePod fixtureProvider (fixturePod ''db'') storeWithWeb
     = (Returned (Some TaskNotFound),
        storeWithWeb\<lparr>storeRequests := [DeleteRequest ''default-db'']\<rparr>) \<and>
   fst (DeletePod fixtureProvider (fixturePod ''web'') storeWithWeb) = Returned None \<and>
   storeTasks (snd (DeletePod fixtureProvider (fixturePod ''web'') storeWithWeb)) = []"
proof -
  note rule = DeletePod_returns_remote_error [where p = fixtureProvider and s = storeWithWeb
      and ms = storeWithWeb and tid = fixtureTaskID and cmd = fixtureCommand
      and mar = fixtureMarshal and unmar = fixtureUnmarshal]
  have del: "memDelete ''default-db'' storeWithWeb
      = (Some TaskNotFound, storeWithWeb\<lparr>storeRequests := [DeleteRequest ''default-db'']\<rparr>)"
    by (simp add: memDelete_def storeWithWeb_def fixtureStore_def fixtureTask_def
        fixtureTaskID_def Let_def)
  have "DeletePod fixtureProvider (fixturePod ''db'') storeWithWeb
     = (Returned (Some TaskNotFound),
        storeWithWeb\<lparr>storeRequests := [DeleteRequest ''default-db'']\<rparr>)"
    using rule [of "fixturePod ''db''" "Some TaskNotFound"
        "storeWithWeb\<lparr>storeRequests := [DeleteRequest ''default-db'']\<rparr>"] del
    by (simp add: fixtureProvider_fields fixturePod_def fixtureTaskID_def)
  moreover have "fst (DeletePod fixtureProvider (fixturePod ''web'') storeWithWeb) = Returned None"
    using rule [of "fixturePod ''web''" None storeWithWeb]
    by (simp add: fixtureProvider_def fixturePod_def storeWithWeb_def fixtureStore_def
        fixtureTask_def)
  moreover have "storeTasks (snd (DeletePod fixtureProvider (fixturePod ''web'') storeWithWeb)) = []"
    by (simp add: DeletePod_def fixtureProvider_fields memDelete_def fixturePod_def
        storeWithWeb_def fixtureStore_def fixtureTask_def Let_def)
  ultimately show ?thesis by simp
qed

subsection \<open>UpdatePod\<close>

text \<open>
  Claim C6. UpdatePod is DeletePod followed by CreatePod on the state the delete left,
  and the create step runs only when the delete step returned no error: when DeletePod
  returns an error, UpdatePod returns that error and the state is the one the Delete
  request left. Against the in-memory service, after a failed delete the job has the tasks
  it had, it has received the Delete request and no Add request, and it holds no task of
  the derived identifier; and a GetPod on the state between a successful delete and the
  create finds the pod absent.
\<close>

theorem UpdatePod_delete_then_create:
  "UpdatePod p pod s =
     (case DeletePod p pod s of
        (Returned None, s') \<Rightarrow> CreatePod p pod s'
      | (outcome, s') \<Rightarrow> (outcome, s')) \<and>
   (DeletePod p pod s = (Returned (Some err), s') \<longrightarrow>
      UpdatePod p pod s = (Returned (Some err), s') \<and>
      s' = snd (taskClientDelete p (getTaskIDForPod p (podNamespace pod) (podName pod)) s)) \<and>
   (DeletePod (memProvider tid cmd mar unmar) pod ms = (Returned (Some err), ms') \<longrightarrow>
      UpdatePod (memProvider tid cmd mar unmar) pod ms = (Returned (Some err), ms') \<and>
      storeTasks ms' = storeTasks ms \<and>
      storeRequests ms' = storeRequests ms @ [DeleteRequest (tid (podNamespace pod) (podName pod))] \<and>
      tid (podNamespace pod) (podName pod) \<notin> set (map ctID (storeTasks ms'))) \<and>
   (DeletePod (memProvider tid cmd mar unmar) pod ms = (Returned None, ms') \<longrightarrow>
      GetPod (memProvider tid cmd mar unmar) (podNamespace pod) (podName pod) ms'
        = Returned (None, None))"
proof -
  have seq: "UpdatePod p pod s =
     (case DeletePod p pod s of
        (Returned None, s') \<Rightarrow> CreatePod p pod s'
      | (outcome, s') \<Rightarrow> (outcome, s'))"
    by (auto simp: UpdatePod_def split: prod.splits outcome.splits option.splits)
  have gen: "DeletePod p pod s = (Returned (Some err), s') \<longrightarrow>
      UpdatePod p pod s = (Returned (Some err), s') \<and>
      s' = snd (taskClientDelete p (getTaskIDForPod p (podNamespace pod) (podName pod)) s)"
    by (auto simp: UpdatePod_def DeletePod_def Let_def split: prod.splits option.splits)
  have failed: "DeletePod (memProvider tid cmd mar unmar) pod ms = (Returned (Some err), ms') \<longrightarrow>
      UpdatePod (memProvider tid cmd mar unmar) pod ms = (Returned (Some err), ms') \<and>
      storeTasks ms' = storeTasks ms \<and>
      storeRequests ms' = storeRequests ms @ [DeleteRequest (tid (podNamespace pod) (podName pod))] \<and>
      tid (podNamespace pod) (podName pod) \<notin> set (map ctID (storeTasks ms'))"
    by (auto simp: UpdatePod_def DeletePod_def memProvider_fields memDelete_def Let_def
        split: if_splits)
  have between: "DeletePod (memProvider tid cmd mar unmar) pod ms = (Returned None, ms') \<longrightarrow>
      GetPod (memProvider tid cmd mar unmar) (podNamespace pod) (podName pod) ms'
        = Returned (None, None)"
  proof
    assume "DeletePod (memProvider tid cmd mar unmar) pod ms = (Returned None, ms')"
    then have "tid (podNamespace pod) (podName pod) \<notin> set (map ctID (storeTasks ms'))"
      by (auto simp: DeletePod_def memProvider_fields memDelete_def Let_def split: if_splits)
    then show "GetPod (memProvider tid cmd mar unmar) (podNamespace pod) (podName pod) ms'
        = Returned (None, None)"
      by (simp add: GetPod_def memProvider_fields memGet_absent)
  qed
  from seq gen failed between show ?thesis by blast
qed

theorem UpdatePod_delete_then_create_witness:
  "UpdatePod fixtureProvider (fixturePod ''db'') storeWithWeb
     = (Returned (Some TaskNotFound),
        storeWithWeb\<lparr>storeRequests := [DeleteRequest ''default-db'']\<rparr>) \<and>
   GetPod fixtureProvider ''default'' ''web''
     (snd (DeletePod fixtureProvider (fixturePod ''web'') storeWithWeb)) = Returned (None, None)"
proof -
  note rule = UpdatePod_delete_then_create [where p = fixtureProvider and s = storeWithWeb
      and ms = storeWithWeb and tid = fixtureTaskID and cmd = fixtureCommand
      and mar = fixtureMarshal and unmar = fixtureUnmarshal]
  have del: "DeletePod fixtureProvider (fixturePod ''db'') storeWithWeb
     = (Returned (Some TaskNotFound),
        storeWithWeb\<lparr>storeRequests := [DeleteRequest ''default-db'']\<rparr>)"
    by (simp add: DeletePod_def fixtureProvider_fields memDelete_def storeWithWeb_def
        fixtureStore_def fixtureTask_def fixtureTaskID_def fixturePod_def Let_def)
  have "UpdatePod fixtureProvider (fixturePod ''db'') storeWithWeb
     = (Returned (Some TaskNotFound),
        storeWithWeb\<lparr>storeRequests := [DeleteRequest ''default-db'']\<rparr>)"
    using rule [of "fixturePod ''db''" TaskNotFound
        "storeWithWeb\<lparr>storeRequests := [DeleteRequest ''default-db'']\<rparr>"
        "storeWithWeb\<lparr>storeRequests := [DeleteRequest ''default-db'']\<rparr>"] del
    by simp
  moreover
  have ok: "fst (DeletePod fixtureProvider (fixturePod ''web'') storeWithWeb) = Returned None"
    by (simp add: DeletePod_def fixtureProvider_fields memDelete_def storeWithWeb_def
        fixtureStore_def fixtureTask_def fixtureTaskID_def fixturePod_def Let_def)
  have "GetPod fixtureProvider ''default'' ''web''
     (snd (DeletePod fixtureProvider (fixturePod ''web'') storeWithWeb)) = Returned (None, None)"
    using rule [of "fixturePod ''web''" TaskNotFound storeWithWeb
        "snd (DeletePod fixtureProvider (fixturePod ''web'') storeWithWeb)"] ok
    by (simp add: fixtureProvider_def prod_eq_iff fixturePod_def)
  ultimately show ?thesis by simp
qed

subsection \<open>GetPods\<close>

lemma storeWithThree_translation:
  "map (getPodFromTask fixtureProvider) (storeTasks (storeWithThree n))
     = map Inr [fixturePod ''web'', fixturePod ''db'', fixturePod ''job'']"
  by (simp add: storeWithThree_def fixtureStore_def fixture_getPodFromTask)

lemma gapped_listing:
  "taskClientList gappedProvider (storeWithThree n)
     = Inr \<lparr>pageTasks = [fixtureTask ''web'' TaskStateRunning 0],
            pagePending = map Inr [] @ Inr []
              # [Inr [fixtureTask ''db'' TaskStateCompleted 255,
                      fixtureTask ''job'' TaskStateCompleted 0]]\<rparr>"
  by (simp add: gappedProvider_def gappedList_def storeWithThree_def fixtureStore_def)

lemma gappedProvider_translation:
  "getPodFromTask gappedProvider t = getPodFromTask fixtureProvider t"
  by (simp add: getPodFromTask_def gappedProvider_def split: option.splits)

lemma failingProvider_translation:
  "getPodFromTask failingProvider t = getPodFromTask fixtureProvider t"
  by (simp add: getPodFromTask_def failingProvider_def split: option.splits)

text \<open>
  Claim C7, as stated: for a listing of N tasks on any number of pages GetPods returns N
  pods, and a failed page fetch reaches the caller as an error. Neither holds. The loop of
  listTasks runs while the page held has a task, so it stops at an empty page: a listing
  of three tasks that answers an empty page after the first task gives one pod and no
  error. And when the fetch of the second page fails, GetPods does not return the error:
  it panics with it.
\<close>

theorem GetPods_pagination_counterexample:
  "length (storeTasks (storeWithThree 0)) = 3 \<and>
   GetPods gappedProvider (storeWithThree 0) = Returned ([fixturePod ''web''], None) \<and>
   GetPods failingProvider (storeWithThree 2)
     = Panicked (PanicError (RemoteFailure ''timeout'')) \<and>
   GetPods failingProvider (storeWithThree 2)
     \<noteq> Returned ([], Some (RemoteFailure ''timeout''))"
proof -
  have "listTasks gappedProvider (storeWithThree 0)
      = (Some [fixtureTask ''web'' TaskStateRunning 0], None)"
    using listTasks_stops [OF gapped_listing [of 0]] by simp
  then have "GetPods gappedProvider (storeWithThree 0) = Returned ([fixturePod ''web''], None)"
    by (simp add: GetPods_def gappedProvider_translation fixture_getPodFromTask)
  moreover have "taskClientList failingProvider (storeWithThree 2)
      = Inr \<lparr>pageTasks = [fixtureTask ''web'' TaskStateRunning 0],
             pagePending = map Inr [] @ Inl (RemoteFailure ''timeout'') # []\<rparr>"
    by (simp add: failingProvider_def failingList_def storeWithThree_def fixtureStore_def)
  then have "listTasks failingProvider (storeWithThree 2) = (Some [], Some (RemoteFailure ''timeout''))"
    using listTasks_fails by fastforce
  then have "GetPods failingProvider (storeWithThree 2)
     = Panicked (PanicError (RemoteFailure ''timeout''))"
    by (simp add: GetPods_def)
  ultimately show ?thesis
    by (simp add: storeWithThree_def fixtureStore_def)
qed

text \<open>
  Claim C7, amended. When the listing answers its tasks on any number of pages, each
  holding at least one task, listTasks fetches every page and yields the tasks of all
  pages in listing order. When every task of the listing translates, GetPods returns one
  pod per task, in that order, each the pod reconstructed from its task (N pods for N
  tasks); and whenever GetPods returns at all for such a listing, it returns exactly
  these N pods and no error. The loop stops at the first empty page: the tasks of the
  pages before it are listed, whatever follows it is neither fetched nor listed, and an
  empty first page lists nothing. When the fetch of a later page fails behind pages that
  all hold tasks, or the first request fails, GetPods aborts by a panic that carries the
  error: it returns neither the error nor a partial list. Against the in-memory service
  every page holds a task, so GetPods returns N pods for every job and every page size.
\<close>

theorem GetPods_drains_all_pages:
  "(taskClientList p s = Inr \<lparr>pageTasks = pg, pagePending = map Inr ps\<rparr> \<and>
    (\<forall>q\<in>set (pg # ps). q \<noteq> []) \<and>
    map (getPodFromTask p) (concat (pg # ps)) = map Inr pods \<longrightarrow>
      listTasks p s = (Some (concat (pg # ps)), None) \<and>
      GetPods p s = Returned (pods, None) \<and>
      length pods = length (concat (pg # ps))) \<and>
   (taskClientList p s = Inr \<lparr>pageTasks = pg, pagePending = map Inr ps\<rparr> \<and>
    (\<forall>q\<in>set (pg # ps). q \<noteq> []) \<and>
    GetPods p s = Returned (returned, e) \<longrightarrow>
      e = None \<and>
      map (getPodFromTask p) (concat (pg # ps)) = map Inr returned \<and>
      length returned = length (concat (pg # ps))) \<and>
   (taskClientList p s = Inr \<lparr>pageTasks = pg, pagePending = map Inr ps @ Inr [] # rest\<rparr> \<and>
    (\<forall>q\<in>set (pg # ps). q \<noteq> []) \<longrightarrow>
      listTasks p s = (Some (concat (pg # ps)), None)) \<and>
   (taskClientList p s = Inr \<lparr>pageTasks = [], pagePending = rest\<rparr> \<longrightarrow>
      listTasks p s = (Some [], None) \<and> GetPods p s = Returned ([], None)) \<and>
   (taskClientList p s = Inr \<lparr>pageTasks = pg, pagePending = map Inr ps @ Inl err # rest\<rparr> \<and>
    (\<forall>q\<in>set (pg # ps). q \<noteq> []) \<longrightarrow>
      GetPods p s = Panicked (PanicError err)) \<and>
   (taskClientList p s = Inl err \<longrightarrow> GetPods p s = Panicked (PanicError err)) \<and>
   (map (getPodFromTask (memProvider tid cmd mar unmar)) (storeTasks ms) = map Inr pods \<longrightarrow>
      GetPods (memProvider tid cmd mar unmar) ms = Returned (pods, None) \<and>
      length pods = length (storeTasks ms))"
proof -
  have all: "taskClientList p s = Inr \<lparr>pageTasks = pg, pagePending = map Inr ps\<rparr> \<and>
    (\<forall>q\<in>set (pg # ps). q \<noteq> []) \<and>
    map (getPodFromTask p) (concat (pg # ps)) = map Inr pods \<longrightarrow>
      listTasks p s = (Some (concat (pg # ps)), None) \<and>
      GetPods p s = Returned (pods, None) \<and>
      length pods = length (concat (pg # ps))"
  proof (intro impI, elim conjE)
    assume l: "taskClientList p s = Inr \<lparr>pageTasks = pg, pagePending = map Inr ps\<rparr>"
      and ne: "\<forall>q\<in>set (pg # ps). q \<noteq> []"
      and tr: "map (getPodFromTask p) (concat (pg # ps)) = map Inr pods"
    have lt: "listTasks p s = (Some (concat (pg # ps)), None)"
      by (rule listTasks_all [OF l ne])
    have "podsFromTasks p (concat (pg # ps)) = Returned pods"
      by (rule podsFromTasks_all [OF tr])
    with lt have "GetPods p s = Returned (pods, None)"
      by (simp add: GetPods_def)
    moreover from tr have "length pods = length (concat (pg # ps))"
      by (metis length_map)
    ultimately show "listTasks p s = (Some (concat (pg # ps)), None) \<and>
      GetPods p s = Returned (pods, None) \<and>
      length pods = length (concat (pg # ps))"
      using lt by simp
  qed
  have whenever: "taskClientList p s = Inr \<lparr>pageTasks = pg, pagePending = map Inr ps\<rparr> \<and>
    (\<forall>q\<in>set (pg # ps). q \<noteq> []) \<and>
    GetPods p s = Returned (returned, e) \<longrightarrow>
      e = None \<and>
      map (getPodFromTask p) (concat (pg # ps)) = map Inr returned \<and>
      length returned = length (concat (pg # ps))"
  proof (intro impI, elim conjE)
    assume l: "taskClientList p s = Inr \<lparr>pageTasks = pg, pagePending = map Inr ps\<rparr>"
      and ne: "\<forall>q\<in>set (pg # ps). q \<noteq> []"
      and r: "GetPods p s = Returned (returned, e)"
    have lt: "listTasks p s = (Some (concat (pg # ps)), None)"
      by (rule listTasks_all [OF l ne])
    with r have "podsFromTasks p (concat (pg # ps)) = Returned returned" and none: "e = None"
      by (auto simp: GetPods_def split: outcome.splits)
    then have tr: "map (getPodFromTask p) (concat (pg # ps)) = map Inr returned"
      by (simp only: podsFromTasks_status)
    then have "length returned = length (concat (pg # ps))"
      by (metis length_map)
    with none tr show "e = None \<and>
      map (getPodFromTask p) (concat (pg # ps)) = map Inr returned \<and>
      length returned = length (concat (pg # ps))"
      by simp
  qed
  have stops: "taskClientList p s = Inr \<lparr>pageTasks = pg, pagePending = map Inr ps @ Inr [] # rest\<rparr> \<and>
    (\<forall>q\<in>set (pg # ps). q \<noteq> []) \<longrightarrow>
      listTasks p s = (Some (concat (pg # ps)), None)"
    using listTasks_stops [of p s pg ps rest] by blast
  have none_listed: "taskClientList p s = Inr \<lparr>pageTasks = [], pagePending = rest\<rparr> \<longrightarrow>
      listTasks p s = (Some [], None) \<and> GetPods p s = Returned ([], None)"
  proof
    assume "taskClientList p s = Inr \<lparr>pageTasks = [], pagePending = rest\<rparr>"
    then have "listTasks p s = (Some [], None)"
      by (rule listTasks_empty_first)
    then show "listTasks p s = (Some [], None) \<and> GetPods p s = Returned ([], None)"
      by (simp add: GetPods_def)
  qed
  have fails: "taskClientList p s = Inr \<lparr>pageTasks = pg, pagePending = map Inr ps @ Inl err # rest\<rparr> \<and>
    (\<forall>q\<in>set (pg # ps). q \<noteq> []) \<longrightarrow>
      GetPods p s = Panicked (PanicError err)"
  proof (intro impI, elim conjE)
    assume l: "taskClientList p s = Inr \<lparr>pageTasks = pg, pagePending = map Inr ps @ Inl err # rest\<rparr>"
      and ne: "\<forall>q\<in>set (pg # ps). q \<noteq> []"
    have "listTasks p s = (Some [], Some err)"
      by (rule listTasks_fails [OF l ne])
    then show "GetPods p s = Panicked (PanicError err)"
      by (simp add: GetPods_def)
  qed
  have first: "taskClientList p s = Inl err \<longrightarrow> GetPods p s = Panicked (PanicError err)"
    by (simp add: GetPods_def listTasks_def)
  have mem: "map (getPodFromTask (memProvider tid cmd mar unmar)) (storeTasks ms) = map Inr pods \<longrightarrow>
      GetPods (memProvider tid cmd mar unmar) ms = Returned (pods, None) \<and>
      length pods = length (storeTasks ms)"
  proof
    assume tr: "map (getPodFromTask (memProvider tid cmd mar unmar)) (storeTasks ms) = map Inr pods"
    have "podsFromTasks (memProvider tid cmd mar unmar) (storeTasks ms) = Returned pods"
      by (rule podsFromTasks_all [OF tr])
    then have "GetPods (memProvider tid cmd mar unmar) ms = Returned (pods, None)"
      by (simp add: GetPods_def listTasks_mem)
    moreover from tr have "length pods = length (storeTasks ms)"
      by (metis length_map)
    ultimately show "GetPods (memProvider tid cmd mar unmar) ms = Returned (pods, None) \<and>
      length pods = length (storeTasks ms)"
      by simp
  qed
  from all whenever stops none_listed fails first mem show ?thesis by blast
qed

theorem GetPods_drains_all_pages_witness:
  "pagesOf 2 (storeTasks (storeWithThree 2))
     = [[fixtureTask ''web'' TaskStateRunning 0, fixtureTask ''db'' TaskStateCompleted 255],
        [fixtureTask ''job'' TaskStateCompleted 0]] \<and>
   GetPods fixtureProvider (storeWithThree 2)
     = Returned ([fixturePod ''web'', fixturePod ''db'', fixturePod ''job''], None) \<and>
   GetPods fixtureProvider (storeWithThree 1)
     = Returned ([fixturePod ''web'', fixturePod ''db'', fixturePod ''job''], None) \<and>
   GetPods failingProvider (storeWithThree 2) = Panicked (PanicError (RemoteFailure ''timeout'')) \<and>
   listTasks gappedProvider (storeWithThree 0)
     = (Some [fixtureTask ''web'' TaskStateRunning 0], None)"
proof -
  have gapped: "listTasks gappedProvider (storeWithThree 0)
     = (Some [fixtureTask ''web'' TaskStateRunning 0], None)"
    using GetPods_drains_all_pages [where p = gappedProvider and s = "storeWithThree 0"
        and pg = "[fixtureTask ''web'' TaskStateRunning 0]" and ps = "[]"
        and pods = "[]" and err = TaskNotFound and returned = "[]" and e = None
        and rest = "[Inr [fixtureTask ''db'' TaskStateCompleted 255,
                          fixtureTask ''job'' TaskStateCompleted 0]]"
        and tid = fixtureTaskID and cmd = fixtureCommand
        and mar = fixtureMarshal and unmar = fixtureUnmarshal and ms = "storeWithThree 0"]
      gapped_listing [of 0]
    by simp
  have pages: "pagesOf 2 (storeTasks (storeWithThree 2))
     = [[fixtureTask ''web'' TaskStateRunning 0, fixtureTask ''db'' TaskStateCompleted 255],
        [fixtureTask ''job'' TaskStateCompleted 0]]"
    by (simp add: storeWithThree_def fixtureStore_def pagesOf.simps)
  have list2: "taskClientList fixtureProvider (storeWithThree 2)
     = Inr \<lparr>pageTasks = [fixtureTask ''web'' TaskStateRunning 0, fixtureTask ''db'' TaskStateCompleted 255],
            pagePending = map Inr [[fixtureTask ''job'' TaskStateCompleted 0]]\<rparr>"
    using pages by (simp add: fixtureProvider_fields memList_def storeWithThree_def fixtureStore_def)
  have two: "GetPods fixtureProvider (storeWithThree 2)
     = Returned ([fixturePod ''web'', fixturePod ''db'', fixturePod ''job''], None)"
    using GetPods_drains_all_pages [where p = fixtureProvider and s = "storeWithThree 2"
        and pg = "[fixtureTask ''web'' TaskStateRunning 0, fixtureTask ''db'' TaskStateCompleted 255]"
        and ps = "[[fixtureTask ''job'' TaskStateCompleted 0]]"
        and pods = "[fixturePod ''web'', fixturePod ''db'', fixturePod ''job'']"
        and err = TaskNotFound and rest = "[]" and tid = fixtureTaskID and cmd = fixtureCommand
        and mar = fixtureMarshal and unmar = fixtureUnmarshal and ms = "storeWithThree 2"]
      list2
    by (simp add: fixture_getPodFromTask)
  have one: "GetPods fixtureProvider (storeWithThree 1)
     = Returned ([fixturePod ''web'', fixturePod ''db'', fixturePod ''job''], None)"
    using GetPods_drains_all_pages [where p = fixtureProvider and s = "storeWithThree 1"
        and pg = "[]" and ps = "[]"
        and pods = "[fixturePod ''web'', fixturePod ''db'', fixturePod ''job'']"
        and err = TaskNotFound and rest = "[]" and tid = fixtureTaskID and cmd = fixtureCommand
        and mar = fixtureMarshal and unmar = fixtureUnmarshal and ms = "storeWithThree 1"]
      storeWithThree_translation [of 1]
    by (simp add: fixtureProvider_def)
  have failing: "GetPods failingProvider (storeWithThree 2)
     = Panicked (PanicError (RemoteFailure ''timeout''))"
    using GetPods_drains_all_pages [where p = failingProvider and s = "storeWithThree 2"
        and pg = "[fixtureTask ''web'' TaskStateRunning 0]" and ps = "[]"
        and pods = "[]" and err = "RemoteFailure ''timeout''" and rest = "[]"
        and tid = fixtureTaskID and cmd = fixtureCommand
        and mar = fixtureMarshal and unmar = fixtureUnmarshal and ms = "storeWithThree 2"]
    by (simp add: failingProvider_def failingList_def storeWithThree_def fixtureStore_def)
  from pages two one failing gapped show ?thesis by simp
qed

subsection \<open>Freshness of the status\<close>

text \<open>
  Claim C9. Every pod a lookup returns is claimed to carry the status translated from
  the current state of its task. GetPod does that; GetPods does not: it returns the pods
  as deserialized, with the status of the payload. Here the job holds one Running task
  whose payload has the zero status; GetPods returns the pod with the zero status, while
  GetPod returns it with phase Running.
\<close>

theorem GetPods_keeps_embedded_status:
  "GetPods fixtureProvider storeWithWeb = Returned ([fixturePod ''web''], None) \<and>
   podStatus (fixturePod ''web'') = \<lparr>statusPhase = PhaseUnset, statusStartTime = None\<rparr> \<and>
   convertTaskToPodStatus (fixtureTask ''web'' TaskStateRunning 0)
     = \<lparr>statusPhase = PodRunning, statusStartTime = Some 7\<rparr> \<and>
   GetPod fixtureProvider ''default'' ''web'' storeWithWeb
     = Returned (Some ((fixturePod ''web'')
         \<lparr>podStatus := \<lparr>statusPhase = PodRunning, statusStartTime = Some 7\<rparr>\<rparr>), None)"
proof -
  have "GetPods fixtureProvider storeWithWeb = Returned ([fixturePod ''web''], None)"
    by (simp add: GetPods_def fixtureProvider_def listTasks_mem storeWithWeb_def fixtureStore_def
        fixture_getPodFromTask [unfolded fixtureProvider_def])
  moreover have status: "convertTaskToPodStatus (fixtureTask ''web'' TaskStateRunning 0)
     = \<lparr>statusPhase = PodRunning, statusStartTime = Some 7\<rparr>"
    by (simp add: convertTaskToPodStatus_def fixtureTask_def)
  moreover have "GetPod fixtureProvider ''default'' ''web'' storeWithWeb
     = Returned (Some ((fixturePod ''web'')
         \<lparr>podStatus := \<lparr>statusPhase = PodRunning, statusStartTime = Some 7\<rparr>\<rparr>), None)"
    by (simp add: GetPod_def fixtureProvider_fields storeWithWeb_get fixture_getPodFromTask status)
  ultimately show ?thesis
    by (simp add: fixturePod_def)
qed

subsection \<open>GetContainerLogs\<close>

text \<open>
  Claim C10. GetContainerLogs does not depend on its tail argument: two calls that differ
  in tail only give the same result. When the file wd/<containerName> of the task is read
  without error, the result is the whole content of that file.
\<close>

theorem GetContainerLogs_ignores_tail:
  "GetContainerLogs p namespace name containerName t1 s
     = GetContainerLogs p namespace name containerName t2 s \<and>
   (fileClientGetFromTask p (getTaskIDForPod p namespace name) (''wd/'' @ containerName) s
      = Inr (ReadCloser bytes None) \<longrightarrow>
      GetContainerLogs p namespace name containerName t1 s = Returned (bytes, None)) \<and>
   (tid namespace name \<in> set (map ctID (storeTasks ms)) \<and>
    map_of (storeFiles ms) (tid namespace name, ''wd/'' @ containerName) = Some bytes \<longrightarrow>
      GetContainerLogs (memProvider tid cmd mar unmar) namespace name containerName t1 ms
        = Returned (bytes, None))"
  by (simp add: GetContainerLogs_def ReadAll_def memProvider_fields memGetFromTask_def)

theorem GetContainerLogs_ignores_tail_witness:
  "GetContainerLogs fixtureProvider ''default'' ''web'' ''main'' 0 storeWithWeb
     = Returned (''line 1'', None) \<and>
   GetContainerLogs fixtureProvider ''default'' ''web'' ''main'' 1 storeWithWeb
     = GetContainerLogs fixtureProvider ''default'' ''web'' ''main'' 0 storeWithWeb"
proof -
  note rule = GetContainerLogs_ignores_tail [where p = fixtureProvider
      and namespace = "''default''" and name = "''web''" and containerName = "''main''"
      and s = storeWithWeb and ms = storeWithWeb and bytes = "''line 1''"
      and tid = fixtureTaskID and cmd = fixtureCommand and mar = fixtureMarshal
      and unmar = fixtureUnmarshal]
  have "GetContainerLogs fixtureProvider ''default'' ''web'' ''main'' 0 storeWithWeb
     = Returned (''line 1'', None)"
    using rule [of 0 0]
    by (simp add: fixtureProvider_def storeWithWeb_def fixtureStore_def fixtureTask_def
        fixtureTaskID_def)
  moreover have "GetContainerLogs fixtureProvider ''default'' ''web'' ''main'' 1 storeWithWeb
     = GetContainerLogs fixtureProvider ''default'' ''web'' ''main'' 0 storeWithWeb"
    using rule [of 1 0] by simp
  ultimately show ?thesis by simp
qed

end
